theory Spec2Isabelle
  imports Complex_Main
begin

section \<open>Python values, errors and the arithmetic of the formula strings\<close>

text \<open>
  The module \<open>bcpnn.py\<close> hands its derivation formulas to \<open>build_translations\<close> as
  strings, which are evaluated by Python against the dictionary of user parameters.
  A parameter value is \<open>None\<close>, a boolean, an integer or a float (see
  \<open>default_parameters\<close>). Python floats are modelled by the reals: the rounding of
  IEEE arithmetic, infinities and NaN are outside the model. Every exception of the
  evaluation is a value of \<open>py_error\<close>.
\<close>

datatype pyval = PyNone | PyBool bool | PyInt int | PyFloat real

datatype py_error =
    NameError string
  | TypeError
  | ZeroDivisionError
  | ValueError
  | KeyError string
  | OverflowError

text \<open>The numeric reading of a value: \<open>bool\<close> is a subtype of \<open>int\<close> in Python.\<close>

datatype num = I int | F real

fun as_num :: "pyval \<Rightarrow> num option" where
  "as_num PyNone = None"
| "as_num (PyBool b) = Some (I (if b then 1 else 0))"
| "as_num (PyInt i) = Some (I i)"
| "as_num (PyFloat x) = Some (F x)"

fun to_float :: "num \<Rightarrow> real" where
  "to_float (I i) = of_int i"
| "to_float (F x) = x"

definition bind_result :: "'e + 'a \<Rightarrow> ('a \<Rightarrow> 'e + 'b) \<Rightarrow> 'e + 'b" where
  "bind_result r f = (case r of Inl e \<Rightarrow> Inl e | Inr v \<Rightarrow> f v)"

fun map_result :: "('a \<Rightarrow> 'e + 'b) \<Rightarrow> 'a list \<Rightarrow> 'e + 'b list" where
  "map_result f [] = Inr []"
| "map_result f (x # xs) =
     bind_result (f x) (\<lambda>y. bind_result (map_result f xs) (\<lambda>ys. Inr (y # ys)))"

text \<open>
  \<open>+\<close>, \<open>-\<close> and \<open>*\<close>: two integers give an integer, any float operand makes the
  result a float, \<open>None\<close> raises \<open>TypeError\<close>.
\<close>

fun num_op :: "(int \<Rightarrow> int \<Rightarrow> int) \<Rightarrow> (real \<Rightarrow> real \<Rightarrow> real) \<Rightarrow> num \<Rightarrow> num \<Rightarrow> pyval" where
  "num_op fi ff (I x) (I y) = PyInt (fi x y)"
| "num_op fi ff x y = PyFloat (ff (to_float x) (to_float y))"

definition py_arith ::
  "(int \<Rightarrow> int \<Rightarrow> int) \<Rightarrow> (real \<Rightarrow> real \<Rightarrow> real) \<Rightarrow> pyval \<Rightarrow> pyval \<Rightarrow> py_error + pyval" where
  "py_arith fi ff a b =
     (case as_num a of
        None \<Rightarrow> Inl TypeError
      | Some x \<Rightarrow> (case as_num b of
                     None \<Rightarrow> Inl TypeError
                   | Some y \<Rightarrow> Inr (num_op fi ff x y)))"

definition py_add :: "pyval \<Rightarrow> pyval \<Rightarrow> py_error + pyval" where
  "py_add = py_arith (+) (+)"

definition py_sub :: "pyval \<Rightarrow> pyval \<Rightarrow> py_error + pyval" where
  "py_sub = py_arith (-) (-)"

definition py_mul :: "pyval \<Rightarrow> pyval \<Rightarrow> py_error + pyval" where
  "py_mul = py_arith (*) (*)"

text \<open>
  \<open>/\<close> raises \<open>ZeroDivisionError\<close> on a zero divisor and gives a float otherwise
  (true division). Every quotient of the formula strings has a float literal or a float
  quotient as its left operand, so none of them divides an integer by an integer, where
  older Python versions would round down.
\<close>

definition py_div :: "pyval \<Rightarrow> pyval \<Rightarrow> py_error + pyval" where
  "py_div a b =
     (case as_num a of
        None \<Rightarrow> Inl TypeError
      | Some x \<Rightarrow> (case as_num b of
                     None \<Rightarrow> Inl TypeError
                   | Some y \<Rightarrow> (if to_float y = 0 then Inl ZeroDivisionError
                                else Inr (PyFloat (to_float x / to_float y)))))"

text \<open>\<open>x ** n\<close> for a literal exponent \<open>n \<ge> 0\<close>, the only form in the source.\<close>

definition py_pow :: "pyval \<Rightarrow> nat \<Rightarrow> py_error + pyval" where
  "py_pow a n =
     (case as_num a of
        None \<Rightarrow> Inl TypeError
      | Some (I x) \<Rightarrow> Inr (PyInt (x ^ n))
      | Some (F x) \<Rightarrow> Inr (PyFloat (x ^ n)))"

text \<open>
  The syntax of the formula strings, and their evaluation in an environment of
  parameter values: operands left to right, the first exception wins, an unknown name
  raises \<open>NameError\<close>.
\<close>

datatype expr =
    Lit pyval
  | Name string
  | Add expr expr
  | Sub expr expr
  | Mul expr expr
  | Div expr expr
  | Pow expr nat

type_synonym env = "string \<Rightarrow> pyval option"

fun py_eval :: "env \<Rightarrow> expr \<Rightarrow> py_error + pyval" where
  "py_eval P (Lit v) = Inr v"
| "py_eval P (Name n) = (case P n of None \<Rightarrow> Inl (NameError n) | Some v \<Rightarrow> Inr v)"
| "py_eval P (Add a b) =
     bind_result (py_eval P a) (\<lambda>x. bind_result (py_eval P b) (\<lambda>y. py_add x y))"
| "py_eval P (Sub a b) =
     bind_result (py_eval P a) (\<lambda>x. bind_result (py_eval P b) (\<lambda>y. py_sub x y))"
| "py_eval P (Mul a b) =
     bind_result (py_eval P a) (\<lambda>x. bind_result (py_eval P b) (\<lambda>y. py_mul x y))"
| "py_eval P (Div a b) =
     bind_result (py_eval P a) (\<lambda>x. bind_result (py_eval P b) (\<lambda>y. py_div x y))"
| "py_eval P (Pow a n) = bind_result (py_eval P a) (\<lambda>x. py_pow x n)"

fun names :: "expr \<Rightarrow> string set" where
  "names (Lit v) = {}"
| "names (Name n) = {n}"
| "names (Add a b) = names a \<union> names b"
| "names (Sub a b) = names a \<union> names b"
| "names (Mul a b) = names a \<union> names b"
| "names (Div a b) = names a \<union> names b"
| "names (Pow a n) = names a"

section \<open>The parameters of \<open>BCPNNSynapse\<close> and their translation\<close>

text \<open>\<open>BCPNNSynapse.default_parameters\<close>, in the order of the source.\<close>

definition default_parameters :: "(string \<times> pyval) list" where
  "default_parameters =
     [(''weight'', PyFloat 0),
      (''delay'', PyNone),
      (''tau_zi'', PyFloat 5),
      (''tau_zj'', PyFloat 5),
      (''tau_p'', PyFloat 1000),
      (''f_max'', PyFloat 20),
      (''phi'', PyFloat (5 / 100)),
      (''w_max'', PyFloat 2),
      (''weights_enabled'', PyBool True),
      (''plasticity_enabled'', PyBool True),
      (''bias_enabled'', PyBool True),
      (''_placeholder1'', PyNone),
      (''_placeholder2'', PyNone)]"

text \<open>
  The parameter space of a synapse type: the values the user gives override the
  defaults, so every name of \<open>default_parameters\<close> has a value. What the constructor
  does beyond that is not modelled: it puts the minimum delay in place of a delay of
  \<open>None\<close>, and it coerces a value to the type of its default.
\<close>

definition parameter_space :: "env \<Rightarrow> env" where
  "parameter_space user = map_of default_parameters ++ user"

text \<open>The formula strings of \<open>BCPNNSynapse.translations\<close>.\<close>

definition a_i_formula :: expr where
  "a_i_formula =
     Div (Lit (PyFloat 1000))
         (Mul (Name ''f_max'') (Sub (Name ''tau_zi'') (Name ''tau_p'')))"

definition a_j_formula :: expr where
  "a_j_formula =
     Div (Lit (PyFloat 1000))
         (Mul (Name ''f_max'') (Sub (Name ''tau_zj'') (Name ''tau_p'')))"

definition a_ij_formula :: expr where
  "a_ij_formula =
     Div (Div (Lit (PyFloat 1000000)) (Add (Name ''tau_zi'') (Name ''tau_zj'')))
         (Mul (Pow (Name ''f_max'') 2)
              (Sub (Div (Lit (PyFloat 1))
                        (Add (Div (Lit (PyFloat 1)) (Name ''tau_zi''))
                             (Div (Lit (PyFloat 1)) (Name ''tau_zj''))))
                   (Name ''tau_p'')))"

definition epsilon_formula :: expr where
  "epsilon_formula =
     Div (Lit (PyFloat 1000)) (Mul (Name ''f_max'') (Name ''tau_p''))"

definition epsilon_squared_formula :: expr where
  "epsilon_squared_formula =
     Pow (Div (Lit (PyFloat 1000)) (Mul (Name ''f_max'') (Name ''tau_p''))) 2"

definition mode_formula :: expr where
  "mode_formula =
     Add (Add (Name ''weights_enabled'')
              (Mul (Name ''plasticity_enabled'') (Lit (PyInt 2))))
         (Mul (Name ''bias_enabled'') (Lit (PyInt 4)))"

text \<open>
  \<open>BCPNNSynapse.translations\<close>: each entry is the PyNN name, the native name and the
  forward transform. A two-element entry of the source translates a parameter to
  itself, which is the forward transform \<open>Name\<close> of the PyNN name.
\<close>

definition bcpnn_translations :: "(string \<times> string \<times> expr) list" where
  "bcpnn_translations =
     [(''weight'', ''weight'', Name ''weight''),
      (''delay'', ''delay'', Name ''delay''),
      (''tau_zi'', ''tau_zi'', Name ''tau_zi''),
      (''tau_zj'', ''tau_zj'', Name ''tau_zj''),
      (''tau_p'', ''tau_p'', Name ''tau_p''),
      (''f_max'', ''a_i'', a_i_formula),
      (''weights_enabled'', ''a_j'', a_j_formula),
      (''plasticity_enabled'', ''a_ij'', a_ij_formula),
      (''bias_enabled'', ''epsilon'', epsilon_formula),
      (''_placeholder1'', ''epsilon_squared'', epsilon_squared_formula),
      (''phi'', ''phi'', Name ''phi''),
      (''w_max'', ''w_max'', Name ''w_max''),
      (''_placeholder2'', ''mode'', mode_formula)]"






text \<open>
  The native parameters as values: every forward transform evaluated as a scalar against
  the user parameters, in the order of the table, up to the first exception. Where every
  name of the table has a value this is the translation followed by the scalar
  evaluation of each native parameter (lemma \<open>translate_evaluated\<close>); the error of
  a division by zero belongs to the evaluation, not to the translation.
\<close>

fun translate_all :: "env \<Rightarrow> (string \<times> string \<times> expr) list \<Rightarrow> py_error + (string \<times> pyval) list" where
  "translate_all P [] = Inr []"
| "translate_all P ((pynn_name, native_name, forward) # ts) =
     bind_result (py_eval P forward)
       (\<lambda>v. bind_result (translate_all P ts) (\<lambda>rest. Inr ((native_name, v) # rest)))"

definition translate :: "env \<Rightarrow> py_error + (string \<times> pyval) list" where
  "translate P = translate_all P bcpnn_translations"

section \<open>The fixed-point codec\<close>

text \<open>
  Modelled from the spec: the class \<open>LazyArrayFloatToFixConverter\<close> belongs to the
  package \<open>pynn_spinnaker\<close>, which the module imports and the repository does not
  contain. The codec follows section 4.1 of the specification: a format is (signed, total bits, fractional
  bits, saturate on overflow); a value is scaled by two to the fractional bits and
  rounded to the nearest integer, ties away from zero; after rounding, a value outside
  the representable range is saturated to the nearest bound or fails with
  \<open>OverflowError\<close>, as the format says.
\<close>

record FormatSpec =
  fmt_signed :: bool
  total_bits :: nat
  fractional_bits :: nat
  saturate :: bool

definition round_half_away :: "real \<Rightarrow> int" where
  "round_half_away x = (if 0 \<le> x then \<lfloor>x + 1 / 2\<rfloor> else \<lceil>x - 1 / 2\<rceil>)"

definition fmt_min :: "FormatSpec \<Rightarrow> int" where
  "fmt_min fmt = (if fmt_signed fmt then - (2 ^ (total_bits fmt - 1)) else 0)"

definition fmt_max :: "FormatSpec \<Rightarrow> int" where
  "fmt_max fmt = (if fmt_signed fmt then 2 ^ (total_bits fmt - 1) - 1 else 2 ^ total_bits fmt - 1)"

definition encode :: "real \<Rightarrow> FormatSpec \<Rightarrow> py_error + int" where
  "encode v fmt =
     (let r = round_half_away (v * 2 ^ fractional_bits fmt) in
      if fmt_max fmt < r then (if saturate fmt then Inr (fmt_max fmt) else Inl OverflowError)
      else if r < fmt_min fmt then (if saturate fmt then Inr (fmt_min fmt) else Inl OverflowError)
      else Inr r)"

definition decode :: "int \<Rightarrow> FormatSpec \<Rightarrow> real" where
  "decode i fmt = of_int i / 2 ^ fractional_bits fmt"

definition encode_all :: "real list \<Rightarrow> FormatSpec \<Rightarrow> py_error + int list" where
  "encode_all vs fmt = map_result (\<lambda>v. encode v fmt) vs"

text \<open>
  The converter objects of the module. The constructor's arguments are, in the order of
  the source, signed, the number of bits, the number of fractional bits and whether the
  converter copies its argument: both converters of the module are built with
  \<open>False\<close> there and carry \<open>no_copy\<close> in their names. The overflow policy is not
  an argument of the constructor; the specification leaves it to the caller and asks
  for saturation in lookup tables and for a hard error in derived scalar parameters.
\<close>

record converter =
  cv_signed :: bool
  n_bits :: nat
  n_frac :: nat
  cv_copy :: bool

definition LazyArrayFloatToFixConverter :: "bool \<Rightarrow> nat \<Rightarrow> nat \<Rightarrow> bool \<Rightarrow> converter" where
  "LazyArrayFloatToFixConverter s b f c = \<lparr>cv_signed = s, n_bits = b, n_frac = f, cv_copy = c\<rparr>"

definition float_to_s1813_no_copy :: converter where
  "float_to_s1813_no_copy = LazyArrayFloatToFixConverter True 32 13 False"

definition float_to_s69_no_copy :: converter where
  "float_to_s69_no_copy = LazyArrayFloatToFixConverter True 16 9 False"

definition format_of :: "converter \<Rightarrow> bool \<Rightarrow> FormatSpec" where
  "format_of c sat =
     \<lparr>fmt_signed = cv_signed c, total_bits = n_bits c, fractional_bits = n_frac c, saturate = sat\<rparr>"

text \<open>What a converter computes from the values of the array it is called on.\<close>

definition float_to_fixed :: "converter \<Rightarrow> bool \<Rightarrow> real list \<Rightarrow> py_error + int list" where
  "float_to_fixed c sat vs = encode_all vs (format_of c sat)"

section \<open>Arrays in the store: \<open>s1813\<close> and its deep copy\<close>

text \<open>
  A lazy array is an object that a caller and a callee may share, so the wrapper
  \<open>s1813\<close> is modelled over a store of arrays: an address is an index of the store.
  An address outside the store is no object; a call on it gets \<open>NameError\<close>, as the use
  of an unbound name does. A converter built with \<open>copy = False\<close> writes its result
  into the array it was given; one built with \<open>copy = True\<close> allocates a new array.
\<close>

datatype larray = Floats "real list" | Fixed "int list"

type_synonym store = "larray list"

fun larray_values :: "larray \<Rightarrow> real list" where
  "larray_values (Floats vs) = vs"
| "larray_values (Fixed ws) = map of_int ws"

definition deepcopy :: "store \<Rightarrow> nat \<Rightarrow> store \<times> (py_error + nat)" where
  "deepcopy h a =
     (if a < length h then (h @ [h ! a], Inr (length h))
      else (h, Inl (NameError ''values'')))"

definition call_converter :: "converter \<Rightarrow> bool \<Rightarrow> store \<Rightarrow> nat \<Rightarrow> store \<times> (py_error + nat)" where
  "call_converter c sat h a =
     (if a < length h then
        (case float_to_fixed c sat (larray_values (h ! a)) of
           Inl e \<Rightarrow> (h, Inl e)
         | Inr ws \<Rightarrow>
             if cv_copy c then (h @ [Fixed ws], Inr (length h))
             else (h[a := Fixed ws], Inr a))
      else (h, Inl (NameError ''values'')))"

text \<open>
  \<open>def s1813(values, **kwargs): return float_to_s1813_no_copy(deepcopy(values))\<close>.
  The keyword arguments are accepted and not used.
\<close>

definition s1813 :: "store \<Rightarrow> nat \<Rightarrow> 'k \<Rightarrow> store \<times> (py_error + nat)" where
  "s1813 h vals kwargs =
     (case deepcopy h vals of
        (h1, Inl e) \<Rightarrow> (h1, Inl e)
      | (h1, Inr b) \<Rightarrow> call_converter float_to_s1813_no_copy False h1 b)"

text \<open>The array a call returned, read from the store the call left.\<close>

fun returned :: "store \<times> (py_error + nat) \<Rightarrow> py_error + larray" where
  "returned (h, Inl e) = Inl e"
| "returned (h, Inr b) = (if b < length h then Inr (h ! b) else Inl (NameError ''values''))"

section \<open>The lookup tables\<close>

text \<open>
  \<open>numpy.arange(start, stop, step)\<close>: the values \<open>start + i * step\<close> for
  \<open>i\<close> below the ceiling of \<open>(stop - start) / step\<close>.
\<close>

definition arange :: "real \<Rightarrow> real \<Rightarrow> real \<Rightarrow> real list" where
  "arange start stop step =
     map (\<lambda>i. start + real i * step) [0 ..< nat \<lceil>(stop - start) / step\<rceil>]"

text \<open>
  \<open>s1813_ln_lut\<close>, in two steps: the size and the array \<open>x\<close> of sample points, then
  the logarithm and the conversion. A negative shift count raises \<open>ValueError\<close>; a
  shift that leaves the size zero makes \<open>1.0 / float(size)\<close> raise
  \<open>ZeroDivisionError\<close>.
\<close>

definition ln_lut_size :: "int \<Rightarrow> py_error + int" where
  "ln_lut_size input_shift =
     (if input_shift < 0 then Inl ValueError
      else Inr (drop_bit (nat input_shift) (push_bit 13 1)))"

definition ln_lut_x :: "int \<Rightarrow> py_error + real list" where
  "ln_lut_x input_shift =
     bind_result (ln_lut_size input_shift)
       (\<lambda>size. if size = 0 then Inl ZeroDivisionError
               else Inr (arange 1 2 (1 / of_int size)))"

definition s1813_ln_lut :: "int \<Rightarrow> py_error + int list" where
  "s1813_ln_lut input_shift =
     bind_result (ln_lut_x input_shift)
       (\<lambda>x. float_to_fixed float_to_s1813_no_copy True (map ln x))"

text \<open>
  Modelled from the spec: the function \<open>exp_decay_lut\<close> belongs to
  \<open>pynn_spinnaker.spinnaker.lazy_param_map\<close>, which the repository does not contain.
  By section 4.2
  of the specification the table holds one decay multiplier per entry, the decay
  \<open>exp (- 1 / tau)\<close> of one timestep compounded over the timesteps the entry stands
  for, an entry standing for two to the \<open>time_shift\<close> timesteps more than the one
  before it and the first for none; a time constant of zero fails at once.
\<close>

definition exp_decay_lut ::
  "real \<Rightarrow> nat \<Rightarrow> nat \<Rightarrow> (real list \<Rightarrow> py_error + int list) \<Rightarrow> py_error + int list" where
  "exp_decay_lut tau num_entries time_shift to_fixed =
     (if tau = 0 then Inl ZeroDivisionError
      else to_fixed (map (\<lambda>k. exp (- (real k * 2 ^ time_shift) / tau)) [0 ..< num_entries]))"

text \<open>
  \<open>s69_exp_decay_lut = partial(lazy_param_map.exp_decay_lut,
  float_to_fixed=float_to_s69_no_copy)\<close>.
\<close>

definition s69_exp_decay_lut :: "real \<Rightarrow> nat \<Rightarrow> nat \<Rightarrow> py_error + int list" where
  "s69_exp_decay_lut tau num_entries time_shift =
     exp_decay_lut tau num_entries time_shift (float_to_fixed float_to_s69_no_copy True)"

section \<open>The plasticity parameter map and the compiled descriptor\<close>

text \<open>
  A native parameter reaches a converter of the map as an array; a homogeneous
  parameter is the array of its one value. \<open>None\<close> is no number.
\<close>

definition values_of :: "pyval \<Rightarrow> py_error + real list" where
  "values_of v = (case as_num v of None \<Rightarrow> Inl TypeError | Some x \<Rightarrow> Inr [to_float x])"

definition homogeneous :: "pyval \<Rightarrow> py_error + real" where
  "homogeneous v = (case as_num v of None \<Rightarrow> Inl TypeError | Some x \<Rightarrow> Inr (to_float x))"

text \<open>
  \<open>s1813\<close> as an entry of the map: the parameter's array is an object of a store, the
  wrapper is called on it, and the integers of the array it returns are the field.
\<close>

definition s1813_field :: "'k \<Rightarrow> pyval \<Rightarrow> py_error + int list" where
  "s1813_field kwargs v =
     bind_result (values_of v)
       (\<lambda>vs. bind_result (returned (s1813 [Floats vs] 0 kwargs))
          (\<lambda>r. case r of Fixed ws \<Rightarrow> Inr ws | Floats _ \<Rightarrow> Inl TypeError))"

definition exp_decay_field :: "nat \<Rightarrow> nat \<Rightarrow> 'k \<Rightarrow> pyval \<Rightarrow> py_error + int list" where
  "exp_decay_field num_entries time_shift kwargs v =
     bind_result (homogeneous v) (\<lambda>tau. s69_exp_decay_lut tau num_entries time_shift)"

text \<open>
  The converters \<open>s1615\<close>, \<open>s32_weight_fixed_point\<close> and \<open>integer\<close> belong to
  \<open>pynn_spinnaker.spinnaker.lazy_param_map\<close>, which the repository does not contain.
  They are parameters of the model: each is some function of the keyword arguments of the
  compilation and of the native value it is applied to.
\<close>

record 'k lazy_param_map =
  s1615 :: "'k \<Rightarrow> pyval \<Rightarrow> py_error + int list"
  s32_weight_fixed_point :: "'k \<Rightarrow> pyval \<Rightarrow> py_error + int list"
  integer :: "'k \<Rightarrow> pyval \<Rightarrow> py_error + int list"

text \<open>
  An entry of the map is a native name, a storage format and a converter, or a table
  computed when the class is defined and its storage format.
\<close>

datatype 'k entry =
    Field string string "'k \<Rightarrow> pyval \<Rightarrow> py_error + int list"
  | Table "py_error + int list" string

definition plasticity_param_map :: "'k lazy_param_map \<Rightarrow> 'k entry list" where
  "plasticity_param_map lib =
     [Field ''a_i'' ''i4'' s1813_field,
      Field ''a_j'' ''i4'' s1813_field,
      Field ''a_ij'' ''i4'' s1813_field,
      Field ''epsilon'' ''i4'' s1813_field,
      Field ''epsilon_squared'' ''i4'' s1813_field,
      Field ''phi'' ''i4'' (s1615 lib),
      Field ''w_max'' ''i4'' (s32_weight_fixed_point lib),
      Field ''mode'' ''u4'' (integer lib),
      Field ''tau_zi'' ''128i2'' (exp_decay_field 128 0),
      Field ''tau_zj'' ''128i2'' (exp_decay_field 128 0),
      Field ''tau_p'' ''1136i2'' (exp_decay_field 1136 3),
      Table (s1813_ln_lut 6) ''128i2'']"

text \<open>
  Modelled from the spec: the function that applies a parameter map belongs to
  \<open>pynn_spinnaker\<close>, which the repository does not contain. By section 4.4 of the specification
  the compiler walks the schema in order; an entry that names a parameter encodes the
  native value of that name with the entry's converter, a bare table is appended as it
  is; a failure in any step aborts the compilation. A field of the descriptor is the
  name of its entry (none for a bare table), the storage format and the encoded
  integers; the bytes of a field are these integers laid out in its storage format.
\<close>

type_synonym descriptor = "(string option \<times> string \<times> int list) list"

fun apply_entry :: "'k \<Rightarrow> (string \<times> pyval) list \<Rightarrow> 'k entry \<Rightarrow> py_error + (string option \<times> string \<times> int list)" where
  "apply_entry kwargs native (Field name fmt conv) =
     (case map_of native name of
        None \<Rightarrow> Inl (KeyError name)
      | Some v \<Rightarrow> bind_result (conv kwargs v) (\<lambda>ws. Inr (Some name, fmt, ws)))"
| "apply_entry kwargs native (Table t fmt) = bind_result t (\<lambda>ws. Inr (None, fmt, ws))"

definition apply_param_map :: "'k \<Rightarrow> (string \<times> pyval) list \<Rightarrow> 'k entry list \<Rightarrow> py_error + descriptor" where
  "apply_param_map kwargs native param_map = map_result (apply_entry kwargs native) param_map"

text \<open>
  Derivation, then layout: the descriptor of a parameter set, from its native parameters
  evaluated as scalars.
\<close>

definition compile :: "'k lazy_param_map \<Rightarrow> 'k \<Rightarrow> env \<Rightarrow> py_error + descriptor" where
  "compile lib kwargs P =
     bind_result (translate P) (\<lambda>native. apply_param_map kwargs native (plasticity_param_map lib))"

text \<open>
  \<open>BCPNNSynapse.comparable_param_names\<close>, and the key of a parameter set: the values
  of these names, in this order. Two keys are equal when they hold the same values, a
  float for a float and a boolean for a boolean.
\<close>

definition comparable_param_names :: "string list" where
  "comparable_param_names =
     [''tau_zi'', ''tau_zj'', ''tau_p'', ''f_max'', ''phi'', ''w_max'',
      ''weights_enabled'', ''plasticity_enabled'', ''bias_enabled'']"

definition key :: "env \<Rightarrow> pyval option list" where
  "key P = map P comparable_param_names"

section \<open>The methods of \<open>BCPNNSynapse\<close>\<close>

text \<open>
  The simulator's global \<open>state\<close>: \<open>min_delay\<close> is the string \<open>auto\<close> or a number,
  \<open>dt\<close> is the timestep. The method \<open>_get_minimum_delay\<close> reads both and does not
  use \<open>self\<close>; an Isabelle name cannot start with an underscore, so the constant drops
  it.
\<close>

datatype pyobj = Str string | Num real

record simulator_state =
  min_delay :: pyobj
  dt :: pyobj

definition get_minimum_delay :: "'self \<Rightarrow> simulator_state \<Rightarrow> pyobj" where
  "get_minimum_delay self state =
     (let d = min_delay state in
      let d = (if d = Str ''auto'' then dt state else d) in
      d)"

text \<open>
  \<open>update_weight_range\<close>: the body is \<open>pass\<close> and what follows it is a comment. The
  method gets the synapse type and the weight range, leaves both as they are and
  returns \<open>None\<close>.
\<close>

definition update_weight_range :: "'self \<Rightarrow> 'w \<Rightarrow> 'self \<times> 'w \<times> pyval" where
  "update_weight_range self weight_range = (self, weight_range, PyNone)"

text \<open>
  The formulas of section 4.3 of the specification, in its words, to be compared with
  what the translation table of the source computes.
\<close>

definition spec_a_i :: "real \<Rightarrow> real \<Rightarrow> real \<Rightarrow> real" where
  "spec_a_i f_max tau_zi tau_p = 1000 / (f_max * (tau_zi - tau_p))"

definition spec_a_j :: "real \<Rightarrow> real \<Rightarrow> real \<Rightarrow> real" where
  "spec_a_j f_max tau_zj tau_p = 1000 / (f_max * (tau_zj - tau_p))"

definition spec_a_ij :: "real \<Rightarrow> real \<Rightarrow> real \<Rightarrow> real \<Rightarrow> real" where
  "spec_a_ij f_max tau_zi tau_zj tau_p =
     (1000000 / (tau_zi + tau_zj)) / (f_max ^ 2 * (1 / (1 / tau_zi + 1 / tau_zj) - tau_p))"

definition spec_epsilon :: "real \<Rightarrow> real \<Rightarrow> real" where
  "spec_epsilon f_max tau_p = 1000 / (f_max * tau_p)"

definition spec_epsilon_squared :: "real \<Rightarrow> real \<Rightarrow> real" where
  "spec_epsilon_squared f_max tau_p = (spec_epsilon f_max tau_p) ^ 2"

definition spec_mode :: "bool \<Rightarrow> bool \<Rightarrow> bool \<Rightarrow> int" where
  "spec_mode weights_enabled plasticity_enabled bias_enabled =
     of_bool weights_enabled + 2 * of_bool plasticity_enabled + 4 * of_bool bias_enabled"

text \<open>No division of the formulas has a zero divisor.\<close>

definition formulas_defined :: "real \<Rightarrow> real \<Rightarrow> real \<Rightarrow> real \<Rightarrow> bool" where
  "formulas_defined f_max tau_zi tau_zj tau_p =
     (f_max * (tau_zi - tau_p) \<noteq> 0 \<and> f_max * (tau_zj - tau_p) \<noteq> 0
      \<and> tau_zi + tau_zj \<noteq> 0 \<and> tau_zi \<noteq> 0 \<and> tau_zj \<noteq> 0
      \<and> 1 / tau_zi + 1 / tau_zj \<noteq> 0
      \<and> f_max ^ 2 * (1 / (1 / tau_zi + 1 / tau_zj) - tau_p) \<noteq> 0
      \<and> f_max * tau_p \<noteq> 0)"

section \<open>Evaluation of the formula strings\<close>

lemmas py_ops = bind_result_def py_add_def py_sub_def py_mul_def py_div_def py_pow_def py_arith_def

lemma a_i_eval:
  assumes "P ''f_max'' = Some (PyFloat f)" and "P ''tau_zi'' = Some (PyFloat zi)"
    and "P ''tau_p'' = Some (PyFloat p)"
  shows "py_eval P a_i_formula =
    (if f * (zi - p) = 0 then Inl ZeroDivisionError else Inr (PyFloat (spec_a_i f zi p)))"
  using assms by (simp add: a_i_formula_def py_ops spec_a_i_def)

lemma a_j_eval:
  assumes "P ''f_max'' = Some (PyFloat f)" and "P ''tau_zj'' = Some (PyFloat zj)"
    and "P ''tau_p'' = Some (PyFloat p)"
  shows "py_eval P a_j_formula =
    (if f * (zj - p) = 0 then Inl ZeroDivisionError else Inr (PyFloat (spec_a_j f zj p)))"
  using assms by (simp add: a_j_formula_def py_ops spec_a_j_def)

lemma a_ij_eval:
  assumes "P ''f_max'' = Some (PyFloat f)" and "P ''tau_zi'' = Some (PyFloat zi)"
    and "P ''tau_zj'' = Some (PyFloat zj)" and "P ''tau_p'' = Some (PyFloat p)"
  shows "py_eval P a_ij_formula =
    (if zi + zj = 0 \<or> zi = 0 \<or> zj = 0 \<or> 1 / zi + 1 / zj = 0
        \<or> f ^ 2 * (1 / (1 / zi + 1 / zj) - p) = 0
     then Inl ZeroDivisionError
     else Inr (PyFloat (spec_a_ij f zi zj p)))"
  using assms by (simp add: a_ij_formula_def py_ops spec_a_ij_def)

lemma epsilon_eval:
  assumes "P ''f_max'' = Some (PyFloat f)" and "P ''tau_p'' = Some (PyFloat p)"
  shows "py_eval P epsilon_formula =
    (if f * p = 0 then Inl ZeroDivisionError else Inr (PyFloat (spec_epsilon f p)))"
  using assms by (simp add: epsilon_formula_def py_ops spec_epsilon_def)

lemma epsilon_squared_eval:
  assumes "P ''f_max'' = Some (PyFloat f)" and "P ''tau_p'' = Some (PyFloat p)"
  shows "py_eval P epsilon_squared_formula =
    (if f * p = 0 then Inl ZeroDivisionError else Inr (PyFloat (spec_epsilon_squared f p)))"
  using assms
  by (simp add: epsilon_squared_formula_def py_ops spec_epsilon_squared_def spec_epsilon_def)

lemma mode_eval:
  assumes "P ''weights_enabled'' = Some (PyBool w)"
    and "P ''plasticity_enabled'' = Some (PyBool pl)"
    and "P ''bias_enabled'' = Some (PyBool b)"
  shows "py_eval P mode_formula = Inr (PyInt (spec_mode w pl b))"
  using assms by (simp add: mode_formula_def py_ops spec_mode_def)

text \<open>
  The whole translation of a parameter set whose time constants and rate are floats and
  whose flags are booleans: the native parameters, or the first division by zero.
\<close>

lemma translate_closed_form:
  assumes "P ''weight'' = Some wt" and "P ''delay'' = Some dl"
    and "P ''phi'' = Some ph" and "P ''w_max'' = Some wm"
    and "P ''f_max'' = Some (PyFloat f)" and "P ''tau_zi'' = Some (PyFloat zi)"
    and "P ''tau_zj'' = Some (PyFloat zj)" and "P ''tau_p'' = Some (PyFloat p)"
    and "P ''weights_enabled'' = Some (PyBool w)"
    and "P ''plasticity_enabled'' = Some (PyBool pl)"
    and "P ''bias_enabled'' = Some (PyBool b)"
  shows "translate P =
    (if formulas_defined f zi zj p then
       Inr [(''weight'', wt), (''delay'', dl), (''tau_zi'', PyFloat zi),
            (''tau_zj'', PyFloat zj), (''tau_p'', PyFloat p),
            (''a_i'', PyFloat (spec_a_i f zi p)), (''a_j'', PyFloat (spec_a_j f zj p)),
            (''a_ij'', PyFloat (spec_a_ij f zi zj p)),
            (''epsilon'', PyFloat (spec_epsilon f p)),
            (''epsilon_squared'', PyFloat (spec_epsilon_squared f p)),
            (''phi'', ph), (''w_max'', wm), (''mode'', PyInt (spec_mode w pl b))]
     else Inl ZeroDivisionError)"
proof -
  note ev = a_i_eval [OF assms(5,6,8)] a_j_eval [OF assms(5,7,8)]
    a_ij_eval [OF assms(5,6,7,8)] epsilon_eval [OF assms(5,8)]
    epsilon_squared_eval [OF assms(5,8)] mode_eval [OF assms(9,10,11)]
  show ?thesis
    unfolding translate_def bcpnn_translations_def translate_all.simps py_eval.simps ev
    using assms(1-4,6-8)
    by (simp add: bind_result_def formulas_defined_def)
qed





lemmas default_space = parameter_space_def default_parameters_def

section \<open>The derivation formulas\<close>

text \<open>
  C1. For every parameter set whose rate and time constants are floats and whose three
  flags are booleans, and where no formula divides by zero, the translation with its
  scalar evaluation succeeds and the native parameters \<open>a_i\<close>, \<open>a_j\<close>,
  \<open>a_ij\<close>, \<open>epsilon\<close>, \<open>epsilon_squared\<close> and \<open>mode\<close> are the values of
  the closed forms of the specification. The five derived quantities are floats and
  \<open>mode\<close> is an integer: nothing is converted to fixed point by the translation.
\<close>

theorem translate_computes_closed_forms:
  assumes "P ''weight'' = Some wt" and "P ''delay'' = Some dl"
    and "P ''phi'' = Some ph" and "P ''w_max'' = Some wm"
    and "P ''f_max'' = Some (PyFloat f_max)" and "P ''tau_zi'' = Some (PyFloat tau_zi)"
    and "P ''tau_zj'' = Some (PyFloat tau_zj)" and "P ''tau_p'' = Some (PyFloat tau_p)"
    and "P ''weights_enabled'' = Some (PyBool weights_enabled)"
    and "P ''plasticity_enabled'' = Some (PyBool plasticity_enabled)"
    and "P ''bias_enabled'' = Some (PyBool bias_enabled)"
    and "formulas_defined f_max tau_zi tau_zj tau_p"
  shows "\<exists>native. translate P = Inr native
    \<and> map_of native ''a_i'' = Some (PyFloat (spec_a_i f_max tau_zi tau_p))
    \<and> map_of native ''a_j'' = Some (PyFloat (spec_a_j f_max tau_zj tau_p))
    \<and> map_of native ''a_ij'' = Some (PyFloat (spec_a_ij f_max tau_zi tau_zj tau_p))
    \<and> map_of native ''epsilon'' = Some (PyFloat (spec_epsilon f_max tau_p))
    \<and> map_of native ''epsilon_squared'' = Some (PyFloat (spec_epsilon_squared f_max tau_p))
    \<and> map_of native ''mode'' =
        Some (PyInt (spec_mode weights_enabled plasticity_enabled bias_enabled))"
  using translate_closed_form [OF assms(1-11)] assms(12) by simp

theorem translate_computes_closed_forms_witness:
  "formulas_defined 20 5 5 1000
   \<and> (\<exists>native. translate (parameter_space Map.empty) = Inr native
    \<and> map_of native ''a_i'' = Some (PyFloat (spec_a_i 20 5 1000))
    \<and> map_of native ''a_j'' = Some (PyFloat (spec_a_j 20 5 1000))
    \<and> map_of native ''a_ij'' = Some (PyFloat (spec_a_ij 20 5 5 1000))
    \<and> map_of native ''epsilon'' = Some (PyFloat (spec_epsilon 20 1000))
    \<and> map_of native ''epsilon_squared'' = Some (PyFloat (spec_epsilon_squared 20 1000))
    \<and> map_of native ''mode'' = Some (PyInt (spec_mode True True True)))"
proof -
  have d: "formulas_defined 20 5 5 1000"
    by (simp add: formulas_defined_def)
  show ?thesis
    using d translate_computes_closed_forms [of "parameter_space Map.empty" "PyFloat 0" PyNone
        "PyFloat (5 / 100)" "PyFloat 2" 20 5 5 1000 True True True]
    by (simp add: default_space)
qed




section \<open>Rounding and the codec\<close>

lemmas conv_defs = float_to_s1813_no_copy_def float_to_s69_no_copy_def
  LazyArrayFloatToFixConverter_def format_of_def

lemma round_half_away_error: "\<bar>of_int (round_half_away x) - x\<bar> \<le> 1 / 2"
proof (cases "0 \<le> x")
  case True
  then have "round_half_away x = \<lfloor>x + 1 / 2\<rfloor>"
    by (simp add: round_half_away_def)
  then show ?thesis by linarith
next
  case False
  then have "round_half_away x = \<lceil>x - 1 / 2\<rceil>"
    by (simp add: round_half_away_def)
  then show ?thesis by linarith
qed

lemma round_half_away_mono: "x \<le> y \<Longrightarrow> round_half_away x \<le> round_half_away y"
  unfolding round_half_away_def 
  by (auto intro!: floor_mono ceiling_mono; linarith)

lemma round_half_away_nonneg: "0 \<le> x \<Longrightarrow> 0 \<le> round_half_away x"
  unfolding round_half_away_def by simp

lemma round_half_away_of_int: "round_half_away (of_int k) = k"
  unfolding round_half_away_def by (simp; linarith)

lemma map_result_map:
  "(\<And>x. x \<in> set xs \<Longrightarrow> f x = Inr (g x)) \<Longrightarrow> map_result f xs = Inr (map g xs)"
  by (induction xs) (simp_all add: bind_result_def)

lemma encode_in_range:
  assumes "fmt_min fmt \<le> round_half_away (v * 2 ^ fractional_bits fmt)"
    and "round_half_away (v * 2 ^ fractional_bits fmt) \<le> fmt_max fmt"
  shows "encode v fmt = Inr (round_half_away (v * 2 ^ fractional_bits fmt))"
  using assms by (simp add: encode_def Let_def)

lemma encode_saturating:
  assumes "saturate fmt" and "fmt_min fmt \<le> fmt_max fmt"
  shows "encode v fmt =
    Inr (max (fmt_min fmt) (min (fmt_max fmt) (round_half_away (v * 2 ^ fractional_bits fmt))))"
  using assms by (simp add: encode_def Let_def)

lemma decode_encode_error:
  assumes "encode v fmt = Inr (round_half_away (v * 2 ^ fractional_bits fmt))"
  shows "\<bar>decode (round_half_away (v * 2 ^ fractional_bits fmt)) fmt - v\<bar>
          \<le> 1 / 2 ^ (fractional_bits fmt + 1)"
proof -
  let ?s = "(2::real) ^ fractional_bits fmt"
  let ?r = "round_half_away (v * ?s)"
  have s: "0 < ?s" by simp
  have e: "\<bar>of_int ?r - v * ?s\<bar> \<le> 1 / 2" by (rule round_half_away_error)
  have "of_int ?r / ?s - v = (of_int ?r - v * ?s) / ?s"
    using s by (simp add: field_simps)
  then have "\<bar>of_int ?r / ?s - v\<bar> = \<bar>of_int ?r - v * ?s\<bar> / ?s"
    using s by (simp del: of_int_diff)
  also have "\<dots> \<le> (1 / 2) / ?s"
    using e s by (rule divide_right_mono [OF _ less_imp_le])
  finally show ?thesis by (simp add: decode_def)
qed

section \<open>The wrapper \<open>s1813\<close> and the store\<close>

lemma s1813_unfold:
  assumes "vals < length h"
  shows "s1813 h vals kwargs =
    (case float_to_fixed float_to_s1813_no_copy False (larray_values (h ! vals)) of
       Inl e \<Rightarrow> (h @ [h ! vals], Inl e)
     | Inr ws \<Rightarrow> (h @ [Fixed ws], Inr (length h)))"
  using assms
  by (simp add: s1813_def deepcopy_def call_converter_def conv_defs split: sum.split)

text \<open>
  The converter alone, built with \<open>copy = False\<close>, overwrites the array it is given:
  the deep copy of the wrapper is what keeps the caller's array.
\<close>

lemma call_converter_no_copy_overwrites:
  assumes "a < length h" and "float_to_fixed float_to_s1813_no_copy sat (larray_values (h ! a)) = Inr ws"
  shows "call_converter float_to_s1813_no_copy sat h a = (h[a := Fixed ws], Inr a)"
  using assms by (simp add: call_converter_def conv_defs)

lemma s1813_field_eq:
  "s1813_field kwargs v =
     bind_result (values_of v) (float_to_fixed float_to_s1813_no_copy False)"
  by (cases "values_of v")
     (auto simp: s1813_field_def s1813_unfold bind_result_def split: sum.splits)

text \<open>
  C8. For every store and every array of it, \<open>s1813\<close> leaves every array the store
  held, the one it was called on among them, as it was: the store it returns is the old
  one with the copy appended. What it returns is the conversion of the values of the
  array it was called on, or that conversion's error: it depends neither on the rest of
  the store nor on the keyword arguments.
\<close>

theorem s1813_leaves_input_unchanged:
  assumes "vals < length h"
  shows "take (length h) (fst (s1813 h vals kwargs)) = h
    \<and> fst (s1813 h vals kwargs) ! vals = h ! vals
    \<and> returned (s1813 h vals kwargs) =
        map_sum id Fixed (float_to_fixed float_to_s1813_no_copy False (larray_values (h ! vals)))"
  using assms by (simp add: s1813_unfold nth_append split: sum.split)

theorem s1813_leaves_input_unchanged_witness:
  "(0::nat) < length [Floats [5 / 100]]
   \<and> take (length [Floats [5 / 100]]) (fst (s1813 [Floats [5 / 100]] 0 ())) = [Floats [5 / 100]]
   \<and> fst (s1813 [Floats [5 / 100]] 0 ()) ! 0 = Floats [5 / 100]
   \<and> returned (s1813 [Floats [5 / 100]] 0 ()) = Inr (Fixed [410])"
proof -
  have e: "float_to_fixed float_to_s1813_no_copy False [1 / 20] = Inr [410]"
    by (simp add: float_to_fixed_def encode_all_def bind_result_def encode_def conv_defs
        round_half_away_def fmt_max_def fmt_min_def Let_def)
  show ?thesis
    using s1813_leaves_input_unchanged [of 0 "[Floats [5 / 100]]" "()"] e by simp
qed

section \<open>The default parameters, end to end\<close>

text \<open>
  C7. For the input \<open>tau_zi = 5.0\<close>, \<open>tau_zj = 5.0\<close>, \<open>tau_p = 1000.0\<close>,
  \<open>f_max = 20.0\<close>, \<open>phi = 0.05\<close>, \<open>w_max = 2.0\<close> and the three flags true, the
  derivation gives \<open>mode = 7\<close> and \<open>epsilon = 0.05\<close> (with the other native
  parameters as listed), and \<open>0.05\<close> in the signed format of 32 bits with 13
  fractional bits, rounded to nearest with ties away from zero, is the integer 410,
  under either overflow policy and through the wrapper \<open>s1813\<close> of the parameter map.
\<close>

theorem default_parameters_example:
  "translate (parameter_space
     [''tau_zi'' \<mapsto> PyFloat 5, ''tau_zj'' \<mapsto> PyFloat 5, ''tau_p'' \<mapsto> PyFloat 1000,
      ''f_max'' \<mapsto> PyFloat 20, ''phi'' \<mapsto> PyFloat (5 / 100), ''w_max'' \<mapsto> PyFloat 2,
      ''weights_enabled'' \<mapsto> PyBool True, ''plasticity_enabled'' \<mapsto> PyBool True,
      ''bias_enabled'' \<mapsto> PyBool True])
   = Inr [(''weight'', PyFloat 0), (''delay'', PyNone), (''tau_zi'', PyFloat 5),
      (''tau_zj'', PyFloat 5), (''tau_p'', PyFloat 1000),
      (''a_i'', PyFloat (- (10 / 199))), (''a_j'', PyFloat (- (10 / 199))),
      (''a_ij'', PyFloat (- (100 / 399))), (''epsilon'', PyFloat (5 / 100)),
      (''epsilon_squared'', PyFloat (1 / 400)), (''phi'', PyFloat (5 / 100)),
      (''w_max'', PyFloat 2), (''mode'', PyInt 7)]
   \<and> encode (5 / 100)
        \<lparr>fmt_signed = True, total_bits = 32, fractional_bits = 13, saturate = sat\<rparr> = Inr 410
   \<and> s1813_field kwargs (PyFloat (5 / 100)) = Inr [410]"
proof -
  have e: "encode (1 / 20) (format_of float_to_s1813_no_copy s) = Inr 410" for s
    by (simp add: encode_def conv_defs round_half_away_def fmt_max_def fmt_min_def Let_def)
  have "s1813_field kwargs (PyFloat (5 / 100)) = Inr [410]"
    by (simp add: s1813_field_eq values_of_def float_to_fixed_def encode_all_def
        bind_result_def e)
  moreover have "encode (5 / 100)
      \<lparr>fmt_signed = True, total_bits = 32, fractional_bits = 13, saturate = sat\<rparr> = Inr 410"
    using e [of sat] by (simp add: conv_defs)
  moreover have "translate (parameter_space
     [''tau_zi'' \<mapsto> PyFloat 5, ''tau_zj'' \<mapsto> PyFloat 5, ''tau_p'' \<mapsto> PyFloat 1000,
      ''f_max'' \<mapsto> PyFloat 20, ''phi'' \<mapsto> PyFloat (5 / 100), ''w_max'' \<mapsto> PyFloat 2,
      ''weights_enabled'' \<mapsto> PyBool True, ''plasticity_enabled'' \<mapsto> PyBool True,
      ''bias_enabled'' \<mapsto> PyBool True])
   = Inr [(''weight'', PyFloat 0), (''delay'', PyNone), (''tau_zi'', PyFloat 5),
      (''tau_zj'', PyFloat 5), (''tau_p'', PyFloat 1000),
      (''a_i'', PyFloat (- (10 / 199))), (''a_j'', PyFloat (- (10 / 199))),
      (''a_ij'', PyFloat (- (100 / 399))), (''epsilon'', PyFloat (5 / 100)),
      (''epsilon_squared'', PyFloat (1 / 400)), (''phi'', PyFloat (5 / 100)),
      (''w_max'', PyFloat 2), (''mode'', PyInt 7)]"
    by (simp add: translate_def bcpnn_translations_def default_space a_i_formula_def
        a_j_formula_def a_ij_formula_def epsilon_formula_def epsilon_squared_formula_def
        mode_formula_def py_ops power2_eq_square)
  ultimately show ?thesis by simp
qed

section \<open>The natural-log table\<close>

lemma ln_lut_size_Inr:
  "ln_lut_size s = Inr n \<longleftrightarrow> 0 \<le> s \<and> n = 8192 div 2 ^ nat s"
  by (auto simp: ln_lut_size_def push_bit_eq_mult drop_bit_eq_div)

lemma arange_unit:
  assumes "0 < n"
  shows "arange 1 2 (1 / of_int n) = map (\<lambda>i. 1 + real i / of_int n) [0 ..< nat n]"
  using assms by (simp add: arange_def)

lemma ln_lut_x_eq:
  assumes "ln_lut_size s = Inr n" and "0 < n"
  shows "ln_lut_x s = Inr (map (\<lambda>i. 1 + real i / of_int n) [0 ..< nat n])"
  using assms by (simp add: ln_lut_x_def bind_result_def arange_unit)

lemma s1813_ln_entry:
  assumes "0 \<le> y" "y \<le> 1"
  shows "encode y (format_of float_to_s1813_no_copy True) = Inr (round_half_away (y * 2 ^ 13))"
proof -
  have "0 \<le> y * 2 ^ 13" "y * 2 ^ 13 \<le> of_int 8192" using assms by simp_all
  then have "0 \<le> round_half_away (y * 2 ^ 13)" "round_half_away (y * 2 ^ 13) \<le> 8192"
    using round_half_away_mono [of "y * 2 ^ 13" "of_int 8192"] round_half_away_nonneg
    by (simp_all only: round_half_away_of_int)
  then show ?thesis
    by (intro encode_in_range [THEN trans]) (simp_all add: conv_defs fmt_min_def fmt_max_def)
qed

lemma s1813_ln_lut_eq:
  assumes "ln_lut_size s = Inr n" and "0 < n"
  shows "s1813_ln_lut s =
    Inr (map (\<lambda>i. round_half_away (ln (1 + real i / of_int n) * 2 ^ 13)) [0 ..< nat n])"
proof -
  let ?x = "map (\<lambda>i. 1 + real i / of_int n) [0 ..< nat n]"
  let ?fmt = "format_of float_to_s1813_no_copy True"
  have enc: "encode v ?fmt = Inr (round_half_away (v * 2 ^ 13))" if "v \<in> set (map ln ?x)" for v
  proof -
    from that obtain i where i: "i < nat n" and v: "v = ln (1 + real i / of_int n)"
      by auto
    from i assms(2) have q: "0 \<le> real i / of_int n" "real i / of_int n < 1"
      by simp_all
    have "0 \<le> v" using q v by simp
    moreover have "v \<le> 1" using ln_le_minus_one [of "1 + real i / of_int n"] q v by simp
    ultimately show ?thesis by (rule s1813_ln_entry)
  qed
  have "float_to_fixed float_to_s1813_no_copy True (map ln ?x)
      = Inr (map (\<lambda>v. round_half_away (v * 2 ^ 13)) (map ln ?x))"
    unfolding float_to_fixed_def encode_all_def by (rule map_result_map) (rule enc)
  then show ?thesis
    by (simp add: s1813_ln_lut_def ln_lut_x_eq [OF assms] bind_result_def comp_def)
qed

lemma s1813_ln_lut_entry_error:
  assumes "ln_lut_size input_shift = Inr num_entries" and "int i < num_entries"
  shows "\<exists>lut. s1813_ln_lut input_shift = Inr lut \<and> int (length lut) = num_entries
    \<and> \<bar>decode (lut ! i) (format_of float_to_s1813_no_copy True)
         - ln (1 + real i / of_int num_entries)\<bar>
        \<le> 1 / 2 ^ (fractional_bits (format_of float_to_s1813_no_copy True) + 1)"
proof -
  let ?fmt = "format_of float_to_s1813_no_copy True"
  let ?y = "ln (1 + real i / of_int num_entries)"
  from assms(2) have n: "0 < num_entries" and i: "i < nat num_entries" by simp_all
  have f: "fractional_bits ?fmt = 13" by (simp add: conv_defs)
  from i n have q: "0 \<le> real i / of_int num_entries" "real i / of_int num_entries < 1"
    by simp_all
  have "0 \<le> ?y" using q by simp
  moreover have "?y \<le> 1" using ln_le_minus_one [of "1 + real i / of_int num_entries"] q by simp
  ultimately have "encode ?y ?fmt = Inr (round_half_away (?y * 2 ^ 13))"
    by (rule s1813_ln_entry)
  then have "\<bar>decode (round_half_away (?y * 2 ^ 13)) ?fmt - ?y\<bar> \<le> 1 / 2 ^ (fractional_bits ?fmt + 1)"
    using decode_encode_error [of ?y ?fmt] by (simp only: f)
  then show ?thesis
    using i n by (simp add: s1813_ln_lut_eq [OF assms(1) n])
qed

text \<open>
  C4. With \<open>num_entries = (1 << 13) >> input_shift\<close> for a shift that is not negative,
  and for every index \<open>i\<close> below \<open>num_entries\<close>: the table is built, it has
  \<open>num_entries\<close> entries, and its entry \<open>i\<close>, decoded in the table's format, is
  within half a unit of the last fractional bit of \<open>ln (1 + i / num_entries)\<close>.
\<close>

theorem s1813_ln_lut_entries:
  assumes "0 \<le> input_shift"
    and "num_entries = drop_bit (nat input_shift) (push_bit 13 1)"
    and "int i < num_entries"
  shows "\<exists>lut. s1813_ln_lut input_shift = Inr lut \<and> int (length lut) = num_entries
    \<and> \<bar>decode (lut ! i) (format_of float_to_s1813_no_copy True)
         - ln (1 + real i / of_int num_entries)\<bar>
        \<le> 1 / 2 ^ (fractional_bits (format_of float_to_s1813_no_copy True) + 1)"
proof -
  from assms(1,2) have "ln_lut_size input_shift = Inr num_entries"
    by (simp add: ln_lut_size_def)
  then show ?thesis using assms(3) by (rule s1813_ln_lut_entry_error)
qed

theorem s1813_ln_lut_entries_witness:
  "(0::int) \<le> 6 \<and> (128::int) = drop_bit (nat 6) (push_bit 13 1) \<and> int 3 < 128
   \<and> (\<exists>lut. s1813_ln_lut 6 = Inr lut \<and> int (length lut) = 128
    \<and> \<bar>decode (lut ! 3) (format_of float_to_s1813_no_copy True) - ln (1 + real 3 / of_int 128)\<bar>
        \<le> 1 / 2 ^ (fractional_bits (format_of float_to_s1813_no_copy True) + 1))"
proof -
  have s: "(128::int) = drop_bit (nat 6) (push_bit 13 1)"
    by (simp add: push_bit_eq_mult drop_bit_eq_div)
  have z: "(0::int) \<le> 6" and i: "int 3 < 128" by simp_all
  from z s i s1813_ln_lut_entries [OF z s i] show ?thesis by blast
qed

text \<open>
  C5, on the code at \<open>input_shift = 6\<close>, the shift of the parameter map: the sample
  points are \<open>1 + i / 128\<close> for \<open>i\<close> from 0 to 127, each a dyadic number and exact in
  binary floating point. The first is \<open>1.0\<close>, the last is \<open>2 - 1 / 128\<close>, and
  \<open>2.0\<close> is not among them: the grid is the half-open interval from \<open>1.0\<close>
  included to \<open>2.0\<close> excluded.
\<close>

theorem ln_lut_x_at_6:
  "ln_lut_x 6 = Inr (map (\<lambda>i. 1 + real i / 128) [0 ..< 128])
   \<and> hd (map (\<lambda>i. 1 + real i / 128) [0 ..< 128]) = 1
   \<and> last (map (\<lambda>i. 1 + real i / 128) [0 ..< 128]) = 2 - 1 / 128
   \<and> 2 \<notin> set (map (\<lambda>i. 1 + real i / 128) [0 ..< 128])"
proof -
  have s: "ln_lut_size 6 = Inr 128"
    by (simp add: ln_lut_size_Inr)
  have "ln_lut_x 6 = Inr (map (\<lambda>i. 1 + real i / 128) [0 ..< 128])"
    using ln_lut_x_eq [OF s] by simp
  moreover have "hd (map (\<lambda>i. 1 + real i / 128) [0 ..< 128]) = 1"
    by (simp add: hd_map upt_conv_Cons)
  moreover have "last (map (\<lambda>i. 1 + real i / 128) [0 ..< 128]) = 2 - 1 / 128"
    by (simp add: last_map)
  moreover have "2 \<notin> set (map (\<lambda>i. 1 + real i / 128) [0 ..< 128])"
    by auto
  ultimately show ?thesis by blast
qed

section \<open>The exponential-decay table\<close>

lemma s69_format:
  "fmt_min (format_of float_to_s69_no_copy True) = - 32768"
  "fmt_max (format_of float_to_s69_no_copy True) = 32767"
  "fractional_bits (format_of float_to_s69_no_copy True) = 9"
  "saturate (format_of float_to_s69_no_copy True)"
  by (simp_all add: conv_defs fmt_min_def fmt_max_def)

lemma encode_s69:
  "encode v (format_of float_to_s69_no_copy True) =
     Inr (max (- 32768) (min 32767 (round_half_away (v * 2 ^ 9))))"
  using encode_saturating [of "format_of float_to_s69_no_copy True" v]
  by (simp only: s69_format)

lemma s69_exp_decay_lut_eq:
  assumes "tau \<noteq> 0"
  shows "s69_exp_decay_lut tau num_entries time_shift =
    Inr (map (\<lambda>k. max (- 32768) (min 32767
           (round_half_away (exp (- (real k * 2 ^ time_shift) / tau) * 2 ^ 9))))
         [0 ..< num_entries])"
proof -
  have "map_result (\<lambda>v. encode v (format_of float_to_s69_no_copy True)) vs
      = Inr (map (\<lambda>v. max (- 32768) (min 32767 (round_half_away (v * 2 ^ 9)))) vs)" for vs
    by (rule map_result_map) (rule encode_s69)
  then show ?thesis
    using assms
    by (simp add: s69_exp_decay_lut_def exp_decay_lut_def float_to_fixed_def encode_all_def comp_def)
qed

lemma s69_entry_mono:
  assumes "0 < tau" and "i \<le> j"
  shows "max (- 32768) (min 32767 (round_half_away (exp (- (real j * 2 ^ time_shift) / tau) * 2 ^ 9)))
       \<le> max (- 32768) (min 32767 (round_half_away (exp (- (real i * 2 ^ time_shift) / tau) * 2 ^ 9)))"
proof -
  from assms have "real i * 2 ^ time_shift / tau \<le> real j * 2 ^ time_shift / tau"
    by (simp add: divide_right_mono)
  then have "exp (- (real j * 2 ^ time_shift) / tau) \<le> exp (- (real i * 2 ^ time_shift) / tau)"
    by simp
  then have "round_half_away (exp (- (real j * 2 ^ time_shift) / tau) * 2 ^ 9)
      \<le> round_half_away (exp (- (real i * 2 ^ time_shift) / tau) * 2 ^ 9)"
    by (intro round_half_away_mono) simp
  then show ?thesis by linarith
qed

lemma s69_entry_range:
  assumes "0 < tau"
  shows "0 \<le> max (- 32768) (min 32767 (round_half_away (exp (- (real k * 2 ^ time_shift) / tau) * 2 ^ 9)))"
    and "max (- 32768) (min 32767 (round_half_away (exp (- (real k * 2 ^ time_shift) / tau) * 2 ^ 9))) \<le> 512"
proof -
  let ?v = "exp (- (real k * 2 ^ time_shift) / tau)"
  have "0 \<le> real k * 2 ^ time_shift / tau" using assms by simp
  then have "?v \<le> 1" by simp
  then have "?v * 2 ^ 9 \<le> of_int 512" by simp
  then have "round_half_away (?v * 2 ^ 9) \<le> 512"
    using round_half_away_mono [of "?v * 2 ^ 9" "of_int 512"]
    by (simp only: round_half_away_of_int)
  moreover have "0 \<le> round_half_away (?v * 2 ^ 9)"
    by (rule round_half_away_nonneg) simp
  ultimately show "0 \<le> max (- 32768) (min 32767 (round_half_away (?v * 2 ^ 9)))"
    and "max (- 32768) (min 32767 (round_half_away (?v * 2 ^ 9))) \<le> 512"
    by linarith+
qed

lemma s69_entry_exact:
  assumes "0 < tau"
  shows "max (- 32768) (min 32767 (round_half_away (exp (- (real k * 2 ^ time_shift) / tau) * 2 ^ 9)))
       = round_half_away (exp (- (real k * 2 ^ time_shift) / tau) * 2 ^ 9)"
  using s69_entry_range [OF assms, of k time_shift] by linarith

lemma round_half_away_pos_iff:
  assumes "0 \<le> x"
  shows "0 < round_half_away x \<longleftrightarrow> 1 / 2 \<le> x"
proof -
  from assms have "round_half_away x = \<lfloor>x + 1 / 2\<rfloor>"
    by (simp add: round_half_away_def)
  then show ?thesis by linarith
qed

text \<open>
  C6, as amended. For every \<open>tau > 0\<close>, every number of entries and every time shift,
  the table is built and is non-increasing entry by entry. Every decoded entry lies in
  the closed interval from 0 to 1 and is within half a unit of the last fractional bit
  of the decay \<open>exp (- k * 2 ^ time_shift / tau)\<close> of its index \<open>k\<close>. A decoded
  entry is above 0, and so within the interval from 0 excluded to 1 included, exactly
  when its decay is at least half a unit of the last fractional bit; it is 0 exactly
  when the decay is below that.
\<close>

theorem exp_decay_lut_non_increasing:
  assumes "0 < tau"
  shows "\<exists>lut. s69_exp_decay_lut tau num_entries time_shift = Inr lut
    \<and> length lut = num_entries
    \<and> sorted_wrt (\<lambda>a b. b \<le> a) lut
    \<and> (\<forall>w \<in> set lut. 0 \<le> decode w (format_of float_to_s69_no_copy True)
          \<and> decode w (format_of float_to_s69_no_copy True) \<le> 1)
    \<and> (\<forall>k < num_entries.
          \<bar>decode (lut ! k) (format_of float_to_s69_no_copy True)
             - exp (- (real k * 2 ^ time_shift) / tau)\<bar>
            \<le> 1 / 2 ^ (fractional_bits (format_of float_to_s69_no_copy True) + 1)
        \<and> (0 < decode (lut ! k) (format_of float_to_s69_no_copy True)
            \<longleftrightarrow> 1 / 2 \<le> exp (- (real k * 2 ^ time_shift) / tau)
                  * 2 ^ fractional_bits (format_of float_to_s69_no_copy True))
        \<and> (decode (lut ! k) (format_of float_to_s69_no_copy True) = 0
            \<longleftrightarrow> exp (- (real k * 2 ^ time_shift) / tau)
                  * 2 ^ fractional_bits (format_of float_to_s69_no_copy True) < 1 / 2))"
proof -
  let ?fmt = "format_of float_to_s69_no_copy True"
  let ?v = "\<lambda>k. exp (- (real k * 2 ^ time_shift) / tau)"
  let ?r = "\<lambda>k. round_half_away (?v k * 2 ^ 9)"
  let ?f = "\<lambda>k. max (- 32768) (min 32767 (?r k))"
  let ?lut = "map ?f [0 ..< num_entries]"
  have 1: "s69_exp_decay_lut tau num_entries time_shift = Inr ?lut"
    using assms by (intro s69_exp_decay_lut_eq) simp
  have 2: "sorted_wrt (\<lambda>a b. b \<le> a) ?lut"
    unfolding sorted_wrt_iff_nth_less using s69_entry_mono [OF assms] by simp
  have 3: "0 \<le> decode w ?fmt \<and> decode w ?fmt \<le> 1" if "w \<in> set ?lut" for w
  proof -
    from that obtain k where w: "w = ?f k" by auto
    have "0 \<le> w" "w \<le> 512"
      unfolding w by (rule s69_entry_range [OF assms])+
    then have "0 \<le> real_of_int w" "real_of_int w \<le> 512" by simp_all
    then show ?thesis by (simp add: decode_def s69_format)
  qed
  have 4: "\<bar>decode (?lut ! k) ?fmt - ?v k\<bar> \<le> 1 / 2 ^ (fractional_bits ?fmt + 1)
      \<and> (0 < decode (?lut ! k) ?fmt \<longleftrightarrow> 1 / 2 \<le> ?v k * 2 ^ fractional_bits ?fmt)
      \<and> (decode (?lut ! k) ?fmt = 0 \<longleftrightarrow> ?v k * 2 ^ fractional_bits ?fmt < 1 / 2)"
    if k: "k < num_entries" for k
  proof -
    have nth: "?lut ! k = ?r k"
      using k s69_entry_exact [OF assms, of k time_shift] by simp
    have fb: "fractional_bits ?fmt = 9" by (rule s69_format)
    have "encode (?v k) ?fmt = Inr (round_half_away (?v k * 2 ^ fractional_bits ?fmt))"
      using encode_s69 [of "?v k"] s69_entry_exact [OF assms, of k time_shift]
      by (simp only: fb)
    then have a: "\<bar>decode (?r k) ?fmt - ?v k\<bar> \<le> 1 / 2 ^ (fractional_bits ?fmt + 1)"
      using decode_encode_error [of "?v k" ?fmt] by (simp only: fb)
    have nn: "0 \<le> ?v k * 2 ^ 9" by simp
    have pos: "0 < ?r k \<longleftrightarrow> 1 / 2 \<le> ?v k * 2 ^ 9"
      using nn by (rule round_half_away_pos_iff)
    have ge: "0 \<le> ?r k" using nn by (rule round_half_away_nonneg)
    have d: "decode (?r k) ?fmt = real_of_int (?r k) / 2 ^ 9"
      by (simp add: decode_def fb)
    have b: "0 < decode (?r k) ?fmt \<longleftrightarrow> 1 / 2 \<le> ?v k * 2 ^ 9"
      unfolding d using pos by (simp add: zero_less_divide_iff)
    have c: "decode (?r k) ?fmt = 0 \<longleftrightarrow> ?v k * 2 ^ 9 < 1 / 2"
      unfolding d using pos ge by (simp; linarith)
    from a b c show ?thesis unfolding nth fb by blast
  qed
  from 1 2 3 4 show ?thesis by (intro exI [of _ ?lut]) simp
qed

theorem exp_decay_lut_non_increasing_witness:
  "(0::real) < 5
   \<and> (\<exists>lut. s69_exp_decay_lut 5 128 0 = Inr lut \<and> length lut = 128
     \<and> sorted_wrt (\<lambda>a b. b \<le> a) lut
     \<and> (\<forall>w \<in> set lut. 0 \<le> decode w (format_of float_to_s69_no_copy True)
          \<and> decode w (format_of float_to_s69_no_copy True) \<le> 1)
     \<and> (\<forall>k < 128.
          \<bar>decode (lut ! k) (format_of float_to_s69_no_copy True)
             - exp (- (real k * 2 ^ 0) / 5)\<bar>
            \<le> 1 / 2 ^ (fractional_bits (format_of float_to_s69_no_copy True) + 1)
        \<and> (0 < decode (lut ! k) (format_of float_to_s69_no_copy True)
            \<longleftrightarrow> 1 / 2 \<le> exp (- (real k * 2 ^ 0) / 5)
                  * 2 ^ fractional_bits (format_of float_to_s69_no_copy True))
        \<and> (decode (lut ! k) (format_of float_to_s69_no_copy True) = 0
            \<longleftrightarrow> exp (- (real k * 2 ^ 0) / 5)
                  * 2 ^ fractional_bits (format_of float_to_s69_no_copy True) < 1 / 2)))"
proof -
  have p: "(0::real) < 5" by simp
  from p exp_decay_lut_non_increasing [OF p, of 128 0] show ?thesis by (rule conjI)
qed

text \<open>
  C6 as stated fails on the table of the default \<open>tau_zi\<close>: with \<open>tau = 5\<close>, 128
  entries and no time shift, the last entry is the encoding of \<open>exp (- 127 / 5)\<close>,
  which is below half a unit of the nine fractional bits and is stored as 0; decoded, it
  is 0 and not above 0.
\<close>

lemma exp_minus_25: "exp (- (127 / 5) :: real) \<le> 1 / 2 ^ 25"
proof -
  have "(2::real) \<le> exp 1" using exp_ge_add_one_self [of 1] by simp
  then have "(2::real) ^ 25 \<le> exp 1 ^ 25" by (rule power_mono) simp
  also have "\<dots> = exp (real 25 * 1)" by (rule exp_of_nat_mult [symmetric])
  also have "\<dots> \<le> exp (127 / 5)" by simp
  finally have "(2::real) ^ 25 \<le> exp (127 / 5)" .
  then have "1 / exp (127 / 5 :: real) \<le> 1 / 2 ^ 25"
    by (intro divide_left_mono) simp_all
  then show ?thesis by (simp add: exp_minus inverse_eq_divide)
qed

theorem exp_decay_lut_zero_entry:
  "map_sum id last (s69_exp_decay_lut 5 128 0) = Inr 0
   \<and> \<not> 0 < decode 0 (format_of float_to_s69_no_copy True)"
proof -
  have "0 \<le> exp (- (127 / 5) :: real) * 2 ^ 9" by simp
  moreover have "exp (- (127 / 5) :: real) * 2 ^ 9 < 1 / 2"
    using exp_minus_25 by simp
  ultimately have "round_half_away (exp (- (127 / 5) :: real) * 2 ^ 9) = 0"
    unfolding round_half_away_def by (simp add: floor_eq_iff)
  then have "map_sum id last (s69_exp_decay_lut 5 128 0) = Inr 0"
    by (simp add: s69_exp_decay_lut_eq last_map)
  then show ?thesis by (simp add: decode_def)
qed

section \<open>The equality key\<close>

lemma py_eval_cong:
  "(\<And>n. n \<in> names e \<Longrightarrow> P1 n = P2 n) \<Longrightarrow> py_eval P1 e = py_eval P2 e"
  by (induction e) simp_all

lemma translate_all_agree:
  assumes "\<And>pn nn fw. (pn, nn, fw) \<in> set ts \<Longrightarrow>
      py_eval P1 fw = py_eval P2 fw
      \<or> (nn \<in> X \<and> (\<exists>v1 v2. py_eval P1 fw = Inr v1 \<and> py_eval P2 fw = Inr v2))"
  shows "(\<exists>e. translate_all P1 ts = Inl e \<and> translate_all P2 ts = Inl e)
    \<or> (\<exists>N1 N2. translate_all P1 ts = Inr N1 \<and> translate_all P2 ts = Inr N2
          \<and> (\<forall>n. n \<notin> X \<longrightarrow> map_of N1 n = map_of N2 n))"
  using assms
proof (induction ts)
  case Nil
  then show ?case by simp
next
  case (Cons t ts)
  obtain pn nn fw where t: "t = (pn, nn, fw)" by (cases t)
  have rest: "(\<exists>e. translate_all P1 ts = Inl e \<and> translate_all P2 ts = Inl e)
    \<or> (\<exists>N1 N2. translate_all P1 ts = Inr N1 \<and> translate_all P2 ts = Inr N2
          \<and> (\<forall>n. n \<notin> X \<longrightarrow> map_of N1 n = map_of N2 n))"
    by (rule Cons.IH) (auto dest: Cons.prems [OF list.set_intros(2)])
  from Cons.prems [of pn nn fw] t
  consider "py_eval P1 fw = py_eval P2 fw"
    | v1 v2 where "nn \<in> X" "py_eval P1 fw = Inr v1" "py_eval P2 fw = Inr v2"
    by auto
  then show ?case
  proof cases
    case 1
    with rest t show ?thesis
      by (cases "py_eval P2 fw") (auto simp: bind_result_def)
  next
    case 2
    with rest t show ?thesis
      by (auto simp: bind_result_def)
  qed
qed

lemma apply_param_map_agree:
  assumes "\<forall>n. n \<notin> {''weight'', ''delay''} \<longrightarrow> map_of N1 n = map_of N2 n"
  shows "apply_param_map kwargs N1 (plasticity_param_map lib)
       = apply_param_map kwargs N2 (plasticity_param_map lib)"
proof -
  have e: "map_of N1 ''a_i'' = map_of N2 ''a_i''" "map_of N1 ''a_j'' = map_of N2 ''a_j''"
    "map_of N1 ''a_ij'' = map_of N2 ''a_ij''" "map_of N1 ''epsilon'' = map_of N2 ''epsilon''"
    "map_of N1 ''epsilon_squared'' = map_of N2 ''epsilon_squared''"
    "map_of N1 ''phi'' = map_of N2 ''phi''" "map_of N1 ''w_max'' = map_of N2 ''w_max''"
    "map_of N1 ''mode'' = map_of N2 ''mode''" "map_of N1 ''tau_zi'' = map_of N2 ''tau_zi''"
    "map_of N1 ''tau_zj'' = map_of N2 ''tau_zj''" "map_of N1 ''tau_p'' = map_of N2 ''tau_p''"
    using assms by simp_all
  show ?thesis
    by (simp only: apply_param_map_def plasticity_param_map_def map_result.simps
        apply_entry.simps e)
qed

lemma parameter_space_defined:
  "\<exists>v. parameter_space u ''weight'' = Some v" "\<exists>v. parameter_space u ''delay'' = Some v"
  by (simp_all add: default_space map_add_def split: option.split)

lemma compile_agree:
  assumes k: "key P1 = key P2"
    and w: "\<exists>v. P1 ''weight'' = Some v" "\<exists>v. P2 ''weight'' = Some v"
    and d: "\<exists>v. P1 ''delay'' = Some v" "\<exists>v. P2 ''delay'' = Some v"
  shows "compile lib kwargs P1 = compile lib kwargs P2"
proof -
  from k have eq: "P1 n = P2 n" if "n \<in> set comparable_param_names" for n
    using that by (auto simp: key_def)
  have ev: "py_eval P1 fw = py_eval P2 fw" if "names fw \<subseteq> set comparable_param_names" for fw
    using that by (intro py_eval_cong eq) auto
  have formulas: "py_eval P1 a_i_formula = py_eval P2 a_i_formula"
    "py_eval P1 a_j_formula = py_eval P2 a_j_formula"
    "py_eval P1 a_ij_formula = py_eval P2 a_ij_formula"
    "py_eval P1 epsilon_formula = py_eval P2 epsilon_formula"
    "py_eval P1 epsilon_squared_formula = py_eval P2 epsilon_squared_formula"
    "py_eval P1 mode_formula = py_eval P2 mode_formula"
    by (rule ev, simp add: comparable_param_names_def a_i_formula_def a_j_formula_def
        a_ij_formula_def epsilon_formula_def epsilon_squared_formula_def mode_formula_def)+
  have same: "py_eval P1 (Name ''tau_zi'') = py_eval P2 (Name ''tau_zi'')"
    "py_eval P1 (Name ''tau_zj'') = py_eval P2 (Name ''tau_zj'')"
    "py_eval P1 (Name ''tau_p'') = py_eval P2 (Name ''tau_p'')"
    "py_eval P1 (Name ''phi'') = py_eval P2 (Name ''phi'')"
    "py_eval P1 (Name ''w_max'') = py_eval P2 (Name ''w_max'')"
    by (rule ev, simp add: comparable_param_names_def)+
  have free: "\<exists>v1 v2. py_eval P1 (Name ''weight'') = Inr v1 \<and> py_eval P2 (Name ''weight'') = Inr v2"
    "\<exists>v1 v2. py_eval P1 (Name ''delay'') = Inr v1 \<and> py_eval P2 (Name ''delay'') = Inr v2"
    using w d by auto
  have "list_all (\<lambda>t. py_eval P1 (snd (snd t)) = py_eval P2 (snd (snd t))
      \<or> (fst (snd t) \<in> {''weight'', ''delay''}
          \<and> (\<exists>v1 v2. py_eval P1 (snd (snd t)) = Inr v1 \<and> py_eval P2 (snd (snd t)) = Inr v2)))
      bcpnn_translations"
    unfolding bcpnn_translations_def
    by (simp only: list.pred_inject fst_conv snd_conv formulas same free insert_iff simp_thms)
  then have step: "py_eval P1 fw = py_eval P2 fw
      \<or> (nn \<in> {''weight'', ''delay''} \<and> (\<exists>v1 v2. py_eval P1 fw = Inr v1 \<and> py_eval P2 fw = Inr v2))"
    if "(pn, nn, fw) \<in> set bcpnn_translations" for pn nn fw
    using that unfolding list.pred_set by (metis fst_conv snd_conv)
  have "(\<exists>e. translate_all P1 bcpnn_translations = Inl e \<and> translate_all P2 bcpnn_translations = Inl e)
    \<or> (\<exists>N1 N2. translate_all P1 bcpnn_translations = Inr N1
          \<and> translate_all P2 bcpnn_translations = Inr N2
          \<and> (\<forall>n. n \<notin> {''weight'', ''delay''} \<longrightarrow> map_of N1 n = map_of N2 n))"
    by (rule translate_all_agree) (rule step)
  then show ?thesis
  proof (elim disjE exE conjE)
    fix e
    assume "translate_all P1 bcpnn_translations = Inl e"
      "translate_all P2 bcpnn_translations = Inl e"
    then show ?thesis
      by (simp only: compile_def translate_def bind_result_def sum.case)
  next
    fix N1 N2
    assume a: "translate_all P1 bcpnn_translations = Inr N1"
      "translate_all P2 bcpnn_translations = Inr N2"
      and b: "\<forall>n. n \<notin> {''weight'', ''delay''} \<longrightarrow> map_of N1 n = map_of N2 n"
    have "apply_param_map kwargs N1 (plasticity_param_map lib)
        = apply_param_map kwargs N2 (plasticity_param_map lib)"
      using b by (rule apply_param_map_agree)
    with a show ?thesis
      by (simp only: compile_def translate_def bind_result_def sum.case)
  qed
qed

text \<open>
  C3. For every two parameter sets, every set of library converters and every keyword
  arguments of the compilation: if the keys of the two parameter spaces are equal, the
  two compile to the same descriptor, or fail with the same error. The parameters outside
  \<open>comparable_param_names\<close>, which are \<open>weight\<close>, \<open>delay\<close> and the two
  placeholders, do not reach the descriptor.
\<close>

theorem equal_keys_compile_equal:
  assumes "key (parameter_space user1) = key (parameter_space user2)"
  shows "compile lib kwargs (parameter_space user1) = compile lib kwargs (parameter_space user2)"
  using assms by (intro compile_agree parameter_space_defined)

theorem equal_keys_compile_equal_witness:
  "key (parameter_space Map.empty)
     = key (parameter_space [''weight'' \<mapsto> PyFloat 1, ''delay'' \<mapsto> PyFloat 2])
   \<and> translate (parameter_space Map.empty)
     \<noteq> translate (parameter_space [''weight'' \<mapsto> PyFloat 1, ''delay'' \<mapsto> PyFloat 2])
   \<and> compile \<lparr>s1615 = \<lambda>k v. Inr [], s32_weight_fixed_point = \<lambda>k v. Inr [], integer = \<lambda>k v. Inr []\<rparr>
        () (parameter_space Map.empty)
     = compile \<lparr>s1615 = \<lambda>k v. Inr [], s32_weight_fixed_point = \<lambda>k v. Inr [], integer = \<lambda>k v. Inr []\<rparr>
        () (parameter_space [''weight'' \<mapsto> PyFloat 1, ''delay'' \<mapsto> PyFloat 2])"
proof -
  have k: "key (parameter_space Map.empty)
      = key (parameter_space [''weight'' \<mapsto> PyFloat 1, ''delay'' \<mapsto> PyFloat 2])"
    by (simp add: key_def comparable_param_names_def default_space)
  have d: "formulas_defined 20 5 5 1000"
    by (simp add: formulas_defined_def)
  have "translate (parameter_space Map.empty)
      \<noteq> translate (parameter_space [''weight'' \<mapsto> PyFloat 1, ''delay'' \<mapsto> PyFloat 2])"
    using d
      translate_closed_form [of "parameter_space Map.empty" "PyFloat 0" PyNone
        "PyFloat (5 / 100)" "PyFloat 2" 20 5 5 1000 True True True]
      translate_closed_form [of
        "parameter_space [''weight'' \<mapsto> PyFloat 1, ''delay'' \<mapsto> PyFloat 2]"
        "PyFloat 1" "PyFloat 2" "PyFloat (5 / 100)" "PyFloat 2" 20 5 5 1000 True True True]
    by (simp add: default_space)
  with k equal_keys_compile_equal [OF k] show ?thesis by simp
qed

section \<open>The methods\<close>

text \<open>
  C9. For every synapse type and every weight range, \<open>update_weight_range\<close> returns
  \<open>None\<close> and leaves both as they were: nothing is computed from \<open>w_max\<close> or
  \<open>epsilon\<close>, and the weight range is not updated.
\<close>

theorem update_weight_range_does_nothing:
  "update_weight_range self weight_range = (self, weight_range, PyNone)"
  by (simp add: update_weight_range_def)

text \<open>
  C10. For every simulator state, \<open>_get_minimum_delay\<close> returns \<open>state.dt\<close> when
  \<open>state.min_delay\<close> is the string \<open>auto\<close>, and \<open>state.min_delay\<close> itself in every
  other case.
\<close>

theorem get_minimum_delay_auto:
  "get_minimum_delay self state =
     (if min_delay state = Str ''auto'' then dt state else min_delay state)"
  by (simp add: get_minimum_delay_def)

end
